theory Spec2Isabelle
  imports Main
begin

section \<open>Shared data model (src/types/index.ts)\<close>

text \<open>
  \<open>BrowserLog.type\<close> is the TypeScript union
  \<open>"log" | "warn" | "error" | "info" | "debug"\<close>; timestamps are milliseconds since the
  epoch and HTTP statuses are integers.
\<close>

datatype log_type = Log | Warn | Error | Info | Debug

record BrowserLog =
  log_type :: log_type
  log_text :: string
  log_timestamp :: nat

record NetworkRequest =
  req_url :: string
  req_status :: int
  req_error :: "string option"
  req_timestamp :: nat

record MonitoredPage =
  page_title :: string
  page_url :: string
  page_id :: string

text \<open>\<open>LogData\<close> as a value: the contents of the two arrays it points to.\<close>

record LogData =
  console :: "BrowserLog list"
  network :: "NetworkRequest list"

subsection \<open>Rendering of numbers and kinds in template strings\<close>

definition digit_char :: "nat \<Rightarrow> char" where
  "digit_char d = char_of (48 + d)"

function show_nat :: "nat \<Rightarrow> string" where
  "show_nat n = (if n < 10 then [digit_char n] else show_nat (n div 10) @ [digit_char (n mod 10)])"
  by pat_completeness auto
termination
  by (relation "measure (\<lambda>n. n)") auto

declare show_nat.simps [simp del]

definition show_int :: "int \<Rightarrow> string" where
  "show_int i = (if i < 0 then CHR ''-'' # show_nat (nat (- i)) else show_nat (nat i))"

fun type_name :: "log_type \<Rightarrow> string" where
  "type_name Log = ''log''"
| "type_name Warn = ''warn''"
| "type_name Error = ''error''"
| "type_name Info = ''info''"
| "type_name Debug = ''debug''"

definition newline :: string where
  "newline = [CHR 0x0A]"

section \<open>ComposerIntegration (the delivery pipeline)\<close>

text \<open>
  The collaborators of \<open>sendToComposer\<close> (the editor's command interface, the clipboard
  helpers of \<open>utils/clipboard\<close> and the file system) are not part of the class. Every call
  on one of them is recorded in the order it is made, and a stub decides for the k-th call
  of each kind whether it resolves (\<open>True\<close>) or rejects (\<open>False\<close>).
\<close>

datatype failure = ImageFailure | LogsFailure | ClipboardFailure

datatype call =
    OpenCommand          \<comment> \<open>executeCommand("workbench.panel.composerViewPane2.resetViewContainerLocation")\<close>
  | ClearClipboard       \<comment> \<open>clearClipboard()\<close>
  | StageFile            \<comment> \<open>fs.mkdir and fs.writeFile of the temporary image\<close>
  | CopyImage            \<comment> \<open>copyImageToClipboard(tmpFile)\<close>
  | CopyText             \<comment> \<open>copyTextToClipboard(text)\<close>
  | Paste                \<comment> \<open>executeCommand("editor.action.clipboardPasteAction")\<close>
  | Unlink               \<comment> \<open>fs.unlink(tmpFile)\<close>
  | VerifyImage          \<comment> \<open>verifyClipboardContent("image")\<close>
  | VerifyText           \<comment> \<open>verifyClipboardContent("text")\<close>
  | ShowOpenFailed       \<comment> \<open>showErrorMessage("Failed to open composer. ...")\<close>
  | ShowSendFailed failure \<comment> \<open>showErrorMessage("Failed to send data to composer: ...")\<close>
  | ShowSuccess          \<comment> \<open>the "Successfully sent to Composer" progress notification\<close>

type_synonym stub = "call \<Rightarrow> nat \<Rightarrow> bool"

record composer =
  composerOpened :: bool
  calls :: "call list"

definition invoke :: "stub \<Rightarrow> call \<Rightarrow> composer \<Rightarrow> bool \<times> composer" where
  "invoke env c s = (env c (count_list (calls s) c), s\<lparr>calls := calls s @ [c]\<rparr>)"

definition openComposer :: "stub \<Rightarrow> composer \<Rightarrow> composer" where
  "openComposer env s =
     (if composerOpened s then s
      else (let (ok, s1) = invoke env OpenCommand s in
            if ok then s1\<lparr>composerOpened := True\<rparr>
            else snd (invoke env ShowOpenFailed s1)))"

text \<open>
  \<open>sendImageToComposer\<close>: the temporary file is removed in the \<open>finally\<close> block once it has
  been written (\<open>tmpFile\<close> is set); the outcome of the removal is only logged. The result is
  whether the method returned (\<open>True\<close>) or threw.
\<close>

definition sendImageToComposer :: "stub \<Rightarrow> composer \<Rightarrow> bool \<times> composer" where
  "sendImageToComposer env s =
     (let (staged, s1) = invoke env StageFile s in
      if \<not> staged then (False, s1)
      else (let (copied, s2) = invoke env CopyImage s1 in
            if \<not> copied then (False, snd (invoke env Unlink s2))
            else (let (pasted, s3) = invoke env Paste s2 in
                  (pasted, snd (invoke env Unlink s3)))))"

definition prepareTextForComposer :: "stub \<Rightarrow> string \<Rightarrow> composer \<Rightarrow> bool \<times> composer" where
  "prepareTextForComposer env text s =
     (if text = [] then (True, s)
      else (let (copied, s1) = invoke env CopyText s in
            if \<not> copied then (False, s1)
            else invoke env Paste s1))"

definition formatLogs :: "LogData \<Rightarrow> string" where
  "formatLogs logs =
     ''---Console Logs---'' @ newline
     @ concat (map (\<lambda>l. type_name (log_type l) @ '': '' @ log_text l @ newline) (console logs))
     @ newline @ ''---Network Requests---'' @ newline
     @ concat (map (\<lambda>r.
          (case req_error r of
             Some (e # es) \<Rightarrow> ''Failed: '' @ req_url r @ '' ('' @ (e # es) @ '')'' @ newline
           | _ \<Rightarrow> show_int (req_status r) @ '': '' @ req_url r @ newline)) (network logs))"

text \<open>The loop variables of \<open>sendToComposer\<close>.\<close>

record attempts =
  imageAttempt :: nat
  textAttempt :: nat
  imageSuccess :: bool
  textSuccess :: bool

definition maxRetries :: nat where
  "maxRetries = 2"

text \<open>How one artifact's block of the loop body ends.\<close>

datatype block = Delivered | Retry | Raise failure

definition imageBlock :: "stub \<Rightarrow> nat \<Rightarrow> composer \<Rightarrow> block \<times> composer" where
  "imageBlock env attempt s =
     (let (cleared, s1) = invoke env ClearClipboard s in
      if \<not> cleared then (Raise ClipboardFailure, s1)
      else (let (sent, s2) = sendImageToComposer env s1;
                (verified, s3) = (if sent then invoke env VerifyImage s2 else (False, s2)) in
            if verified then (Delivered, s3)
            else if attempt = maxRetries then (Raise ImageFailure, s3)
            else (Retry, s3)))"

definition textBlock :: "stub \<Rightarrow> string \<Rightarrow> nat \<Rightarrow> composer \<Rightarrow> block \<times> composer" where
  "textBlock env text attempt s =
     (let (cleared, s1) = invoke env ClearClipboard s in
      if \<not> cleared then (Raise ClipboardFailure, s1)
      else (let (sent, s2) = prepareTextForComposer env text s1;
                (verified, s3) = (if sent then invoke env VerifyText s2 else (False, s2)) in
            if verified then (Delivered, s3)
            else if attempt = maxRetries then (Raise LogsFailure, s3)
            else (Retry, s3)))"

text \<open>
  The \<open>try\<close> block of one loop iteration: it returns, throws, or falls through to the next
  test of the loop condition with updated variables. The delays have no effect on the
  state, and showing a notification is taken not to fail.
\<close>

datatype outcome = Return | Throw failure | Next attempts

definition tryBody :: "stub \<Rightarrow> bool \<Rightarrow> string \<Rightarrow> attempts \<Rightarrow> composer \<Rightarrow> outcome \<times> composer" where
  "tryBody env screenshot formattedLogs v s =
     (let s1 = openComposer env s;
          (b1, s2) = (if screenshot \<and> \<not> imageSuccess v then imageBlock env (imageAttempt v) s1
                      else (Delivered, s1));
          v1 = (if screenshot \<and> \<not> imageSuccess v
                then (case b1 of Delivered \<Rightarrow> v\<lparr>imageSuccess := True\<rparr>
                              | Retry \<Rightarrow> v\<lparr>imageAttempt := imageAttempt v + 1\<rparr>
                              | Raise e \<Rightarrow> v)
                else v) in
      case b1 of
        Raise e \<Rightarrow> (Throw e, s2)
      | _ \<Rightarrow>
         (let (b2, s3) = (if formattedLogs \<noteq> [] \<and> \<not> textSuccess v1
                          then textBlock env formattedLogs (textAttempt v1) s2
                          else (Delivered, s2));
              v2 = (if formattedLogs \<noteq> [] \<and> \<not> textSuccess v1
                    then (case b2 of Delivered \<Rightarrow> v1\<lparr>textSuccess := True\<rparr>
                                  | Retry \<Rightarrow> v1\<lparr>textAttempt := textAttempt v1 + 1\<rparr>
                                  | Raise e \<Rightarrow> v1)
                    else v1) in
          case b2 of
            Raise e \<Rightarrow> (Throw e, s3)
          | _ \<Rightarrow>
             (if (\<not> screenshot \<or> imageSuccess v2) \<and> (formattedLogs = [] \<or> textSuccess v2)
              then (Return, snd (invoke env ShowSuccess s3))
              else (Next v2, s3))))"

text \<open>
  One iteration with its \<open>catch\<close> (report and rethrow) and its \<open>finally\<close>, which runs
  however the \<open>try\<close> block ends.
\<close>

definition iteration :: "stub \<Rightarrow> bool \<Rightarrow> string \<Rightarrow> attempts \<Rightarrow> composer \<Rightarrow> outcome \<times> composer" where
  "iteration env screenshot formattedLogs v s =
     (let (r, s1) = tryBody env screenshot formattedLogs v s;
          s2 = (case r of Throw e \<Rightarrow> snd (invoke env (ShowSendFailed e) s1) | _ \<Rightarrow> s1) in
      (r, s2\<lparr>composerOpened := False\<rparr>))"

definition loopCond :: "bool \<Rightarrow> string \<Rightarrow> attempts \<Rightarrow> bool" where
  "loopCond screenshot formattedLogs v =
     ((screenshot \<and> \<not> imageSuccess v \<and> imageAttempt v \<le> maxRetries)
      \<or> (formattedLogs \<noteq> [] \<and> \<not> textSuccess v \<and> textAttempt v \<le> maxRetries))"

text \<open>
  The loop terminates: an iteration that falls through has used up an attempt or delivered
  an artifact.
\<close>

definition budget :: "attempts \<Rightarrow> nat" where
  "budget v = (3 - imageAttempt v) + (3 - textAttempt v)
              + (if imageSuccess v then 0 else 1) + (if textSuccess v then 0 else 1)"

lemma iteration_budget:
  assumes "loopCond screenshot formattedLogs v"
    and "iteration env screenshot formattedLogs v s = (Next v', s')"
  shows "budget v' < budget v"
  using assms
  by (auto simp: iteration_def tryBody_def loopCond_def budget_def maxRetries_def
        imageBlock_def textBlock_def Let_def
      split: prod.splits block.splits if_splits)

function sendLoop :: "stub \<Rightarrow> bool \<Rightarrow> string \<Rightarrow> attempts \<Rightarrow> composer \<Rightarrow> (failure + unit) \<times> composer" where
  "sendLoop env screenshot formattedLogs v s =
     (if loopCond screenshot formattedLogs v
      then (case iteration env screenshot formattedLogs v s of
              (Return, s') \<Rightarrow> (Inr (), s')
            | (Throw e, s') \<Rightarrow> (Inl e, s')
            | (Next v', s') \<Rightarrow> sendLoop env screenshot formattedLogs v' s')
      else (Inr (), s))"
  by pat_completeness auto
termination
  by (relation "measure (\<lambda>(env, screenshot, formattedLogs, v, s). budget v)")
     (auto intro: iteration_budget [OF _ sym])

declare sendLoop.simps [simp del]

type_synonym buffer = "nat list"

text \<open>
  \<open>sendToComposer(screenshot?, logs?)\<close>. A \<open>Buffer\<close> is truthy whatever it holds, so only the
  presence of the screenshot matters to the control flow; \<open>formattedLogs\<close> is the empty
  (falsy) string when no logs are passed.
\<close>

definition sendToComposer ::
  "stub \<Rightarrow> buffer option \<Rightarrow> LogData option \<Rightarrow> composer \<Rightarrow> (failure + unit) \<times> composer" where
  "sendToComposer env screenshot logs s =
     (let formattedLogs = (case logs of Some l \<Rightarrow> formatLogs l | None \<Rightarrow> [])
      in sendLoop env (screenshot \<noteq> None) formattedLogs
           \<lparr>imageAttempt = 0, textAttempt = 0, imageSuccess = False, textSuccess = False\<rparr> s)"

abbreviation ncalls :: "call \<Rightarrow> composer \<Rightarrow> nat" where
  "ncalls c s \<equiv> count_list (calls s) c"

subsection \<open>Stub collaborators and inputs for concrete runs\<close>

text \<open>Every verification is rejected, every other call resolves.\<close>

definition rejecting :: stub where
  "rejecting c k = (c \<noteq> VerifyImage \<and> c \<noteq> VerifyText)"


text \<open>Only the first verification of each kind is rejected.\<close>

definition second_time :: stub where
  "second_time c k = (if c = VerifyImage \<or> c = VerifyText then 1 \<le> k else True)"

definition fresh :: composer where
  "fresh = \<lparr>composerOpened = False, calls = []\<rparr>"

definition no_logs :: LogData where
  "no_logs = \<lparr>console = [], network = []\<rparr>"

definition png :: buffer where
  "png = [137, 80, 78, 71]"


section \<open>BrowserMonitor (the browser session manager)\<close>

subsection \<open>Protocol values and their rendering\<close>

text \<open>
  The values of a protocol \<open>RemoteObject\<close> as far as the handlers inspect them. Numbers
  are restricted to integers; \<open>js_string\<close> is JavaScript's \<open>String(x)\<close>, \<open>truthy\<close> its
  coercion to a boolean, and \<open>join_elem\<close> the conversion applied by \<open>Array.join\<close>, which
  renders \<open>undefined\<close> and \<open>null\<close> as the empty string.
\<close>

datatype jsval = JUndefined | JNull | JBool bool | JNum int | JStr string

fun js_string :: "jsval \<Rightarrow> string" where
  "js_string JUndefined = ''undefined''"
| "js_string JNull = ''null''"
| "js_string (JBool b) = (if b then ''true'' else ''false'')"
| "js_string (JNum n) = show_int n"
| "js_string (JStr s) = s"

fun truthy :: "jsval \<Rightarrow> bool" where
  "truthy JUndefined = False"
| "truthy JNull = False"
| "truthy (JBool b) = b"
| "truthy (JNum n) = (n \<noteq> 0)"
| "truthy (JStr s) = (s \<noteq> [])"

fun join_elem :: "jsval \<Rightarrow> string" where
  "join_elem JUndefined = []"
| "join_elem JNull = []"
| "join_elem v = js_string v"

fun join :: "string \<Rightarrow> string list \<Rightarrow> string" where
  "join sep [] = []"
| "join sep [x] = x"
| "join sep (x # y # ys) = x @ sep @ join sep (y # ys)"

text \<open>\<open>a || b\<close> for an optional string \<open>a\<close>: absent and empty are both falsy.\<close>

fun or_else :: "string option \<Rightarrow> string \<Rightarrow> string" where
  "or_else (Some (c # cs)) d = c # cs"
| "or_else _ d = d"

record PropertyPreview =
  prop_name :: string
  prop_value :: "string option"

record ObjectPreview =
  preview_subtype :: "string option"
  preview_description :: "string option"
  preview_properties :: "PropertyPreview list option"

record RemoteObject =
  obj_type :: string
  obj_subtype :: "string option"
  obj_value :: jsval
  obj_description :: "string option"
  obj_preview :: "ObjectPreview option"

text \<open>\<open>arg.preview?.properties?.find((p) => p.name === name)?.value || ""\<close>\<close>

definition preview_field :: "string \<Rightarrow> RemoteObject \<Rightarrow> string" where
  "preview_field name arg =
     (case obj_preview arg of
        None \<Rightarrow> []
      | Some pv \<Rightarrow>
         (case preview_properties pv of
            None \<Rightarrow> []
          | Some ps \<Rightarrow>
             (case find (\<lambda>p. prop_name p = name) ps of
                None \<Rightarrow> []
              | Some p \<Rightarrow> or_else (prop_value p) [])))"

definition quote :: string where
  "quote = [CHR 0x22]"

text \<open>
  The callback of \<open>e.args.map\<close> in the \<open>Runtime.consoleAPICalled\<close> handler. \<open>None\<close> is the
  \<open>TypeError\<close> of reading \<open>properties.map\<close> on an array preview without properties.
\<close>

definition formatArg :: "RemoteObject \<Rightarrow> jsval option" where
  "formatArg arg =
     (case (if obj_type arg = ''object'' then obj_preview arg else None) of
        Some pv \<Rightarrow>
          (if preview_subtype pv = Some ''array'' then
             (case preview_properties pv of
                None \<Rightarrow> None
              | Some ps \<Rightarrow>
                  Some (JStr (''Array('' @ show_nat (length ps) @ '') ['' @ newline @ ''    ''
                    @ join ('','' @ newline @ ''    '')
                        (map (\<lambda>(i, p). show_nat i @ '': '' @ (case prop_value p of
                                 Some v \<Rightarrow> v | None \<Rightarrow> ''undefined''))
                             (enumerate 0 ps))
                    @ newline @ '']'')))
           else
             (case preview_properties pv of
                Some ps \<Rightarrow>
                  Some (JStr (''Object {''
                    @ join '', ''
                        (map (\<lambda>p. prop_name p @ '': '' @ (case prop_value p of
                                 Some v \<Rightarrow> quote @ v @ quote | None \<Rightarrow> ''undefined'')) ps)
                    @ ''}''))
              | None \<Rightarrow> Some (JStr (or_else (preview_description pv) ''Object {}''))))
      | None \<Rightarrow>
          (if obj_type arg = ''function'' then Some (JStr (or_else (obj_description arg) ''function''))
           else if obj_type arg = ''undefined'' then Some (JStr ''undefined'')
           else if obj_type arg = ''string'' then Some (obj_value arg)
           else if obj_type arg = ''number'' \<or> obj_type arg = ''boolean''
             then Some (JStr (js_string (obj_value arg)))
           else if obj_type arg = ''symbol'' then Some (JStr (or_else (obj_description arg) ''Symbol()''))
           else if obj_subtype arg = Some ''error'' then
             (if (case obj_description arg of Some d \<Rightarrow> d \<noteq> [] \<and> CHR 0x0A \<in> set d | None \<Rightarrow> False)
              then Some (JStr (or_else (obj_description arg) []))
              else (let stack = preview_field ''stack'' arg;
                        message = preview_field ''message'' arg in
                    if stack \<noteq> [] \<and> message \<noteq> []
                    then Some (JStr (''Error: '' @ message @ newline @ stack))
                    else Some (JStr (case obj_description arg of
                                       Some (c # cs) \<Rightarrow> c # cs
                                     | _ \<Rightarrow> if truthy (obj_value arg) then js_string (obj_value arg)
                                            else ''Error''))))
           else (if truthy (obj_value arg) then Some (obj_value arg)
                 else Some (JStr (or_else (obj_description arg) [])))))"

fun those_opt :: "'a option list \<Rightarrow> 'a list option" where
  "those_opt [] = Some []"
| "those_opt (None # xs) = None"
| "those_opt (Some x # xs) = (case those_opt xs of None \<Rightarrow> None | Some ys \<Rightarrow> Some (x # ys))"

definition consoleLogType :: "string \<Rightarrow> log_type" where
  "consoleLogType t =
     (if t = ''warning'' then Warn
      else if t = ''debug'' then Debug
      else if t = ''log'' then Log
      else if t = ''info'' then Info
      else if t = ''error'' then Error
      else Log)"

definition entryLogType :: "string \<Rightarrow> log_type" where
  "entryLogType level =
     (if level = ''warning'' then Warn
      else if level = ''error'' then Error
      else if level = ''info'' then Info
      else Log)"

text \<open>The four protocol events the monitor subscribes to, with the fields it reads.\<close>

datatype protocol_event =
    ConsoleAPICalled string "RemoteObject list"   \<comment> \<open>\<open>e.type\<close>, \<open>e.args\<close>\<close>
  | LogEntryAdded string string                   \<comment> \<open>\<open>e.entry.level\<close>, \<open>e.entry.text\<close>\<close>
  | ResponseReceived string int                   \<comment> \<open>\<open>e.response.url\<close>, \<open>e.response.status\<close>\<close>
  | LoadingFailed string                          \<comment> \<open>\<open>e.errorText\<close>\<close>

subsection \<open>State of the monitor\<close>

text \<open>
  The two log buffers are JavaScript arrays, held by reference: \<open>consoleLogs\<close> and
  \<open>networkLogs\<close> are addresses into a store of arrays, \<open>push\<close> updates the array at an
  address in place and an assignment of \<open>[]\<close> allocates a new array. \<open>getLogs\<close> returns the
  two references.
\<close>

type_synonym addr = nat

record LogRefs =
  console_ref :: addr
  network_ref :: addr

record ActivePage =
  ap_page :: nat
  ap_client :: nat
  ap_info :: MonitoredPage

datatype connect_error =
    EndpointUnreachable | PagesUnavailable | NoPagesAvailable
  | SessionCreateFailed | EvaluateFailed | DetachFailed | BrowserDisconnectFailed

datatype toast =
    ConnectFailed connect_error   \<comment> \<open>\<open>showError("Failed to connect: ...")\<close>\<close>
  | SessionInitFailed             \<comment> \<open>\<open>showError("Failed to initialize browser session")\<close>\<close>
  | SessionDisconnected           \<comment> \<open>\<open>showSessionDisconnected()\<close>\<close>
  | TabClosed                     \<comment> \<open>\<open>showTabClosed()\<close>\<close>
  | ConnectedToTab                \<comment> \<open>\<open>showProgress("Successfully connected to tab", ...)\<close>\<close>

text \<open>What the monitor does to its collaborators, in order.\<close>

datatype effect =
    PuppeteerConnect              \<comment> \<open>\<open>puppeteer.connect\<close> resolved: browser connection opened\<close>
  | OpenSession nat               \<comment> \<open>\<open>page.createCDPSession()\<close> resolved with this client\<close>
  | Detach nat                    \<comment> \<open>\<open>client.detach()\<close> called on this client\<close>
  | BrowserDisconnect             \<comment> \<open>\<open>browser.disconnect()\<close> called\<close>
  | SetInterval nat               \<comment> \<open>health check started for this client\<close>
  | ClearInterval nat             \<comment> \<open>\<open>clearInterval\<close> of the health check\<close>
  | SetContext bool               \<comment> \<open>\<open>setContext web-preview:browserConnected\<close>\<close>
  | StatusBar string string       \<comment> \<open>status bar text and tooltip shown\<close>
  | FireConnectionState           \<comment> \<open>\<open>connectionStateEmitter.fire()\<close>\<close>
  | FireDisconnect                \<comment> \<open>\<open>disconnectEmitter.fire()\<close>\<close>
  | FireNewLog BrowserLog         \<comment> \<open>\<open>newLogEmitter.fire(log)\<close>\<close>
  | EmitNetwork NetworkRequest    \<comment> \<open>\<open>this.emit("network", request)\<close>\<close>
  | Toast toast

record monitor =
  browser :: bool                       \<comment> \<open>\<open>this.browser !== null\<close>\<close>
  activePage :: "ActivePage option"
  consoleLogs :: addr
  networkLogs :: addr
  isConnected :: bool                   \<comment> \<open>\<open>_isConnected\<close>, read by \<open>isConnected()\<close>\<close>
  healthCheckInterval :: "nat option"   \<comment> \<open>the client the running timer probes\<close>
  consoleHeap :: "addr \<Rightarrow> BrowserLog list"
  networkHeap :: "addr \<Rightarrow> NetworkRequest list"
  nextAddr :: addr
  nextClient :: nat
  effects :: "effect list"

definition emit :: "effect \<Rightarrow> monitor \<Rightarrow> monitor" where
  "emit e s = s\<lparr>effects := effects s @ [e]\<rparr>"

definition updateStatusBar :: "monitor \<Rightarrow> monitor" where
  "updateStatusBar s =
     emit (StatusBar
            (if \<not> isConnected s then ''$(plug) Connect Browser Tab''
             else ''$(eye) Capture Tab Info ('' @
                    (case activePage s of Some ap \<Rightarrow> page_title (ap_info ap) | None \<Rightarrow> ''undefined'')
                    @ '')'')
            (if isConnected s
             then ''Connected to: '' @
                    (case activePage s of Some ap \<Rightarrow> page_url (ap_info ap) | None \<Rightarrow> ''undefined'')
             else ''Click to connect to a browser tab'')) s"

definition updateConnectionState :: "monitor \<Rightarrow> monitor" where
  "updateConnectionState s =
     (let s1 = s\<lparr>isConnected := (activePage s \<noteq> None)\<rparr>;
          s2 = emit (SetContext (isConnected s1)) s1;
          s3 = emit FireConnectionState s2
      in updateStatusBar s3)"

text \<open>The constructor: two empty arrays, no session, and a first state update.\<close>

definition new_monitor :: monitor where
  "new_monitor =
     updateConnectionState
       \<lparr>browser = False, activePage = None, consoleLogs = 0, networkLogs = 1,
        isConnected = False, healthCheckInterval = None,
        consoleHeap = (\<lambda>a. []), networkHeap = (\<lambda>a. []),
        nextAddr = 2, nextClient = 0, effects = []\<rparr>"

subsection \<open>Log buffers\<close>

definition getLogs :: "monitor \<Rightarrow> LogRefs" where
  "getLogs s = \<lparr>console_ref = consoleLogs s, network_ref = networkLogs s\<rparr>"

text \<open>What a holder of a \<open>LogData\<close> object sees in it when the monitor is in state \<open>s\<close>.\<close>

definition readLogs :: "monitor \<Rightarrow> LogRefs \<Rightarrow> LogData" where
  "readLogs s d = \<lparr>console = consoleHeap s (console_ref d), network = networkHeap s (network_ref d)\<rparr>"

definition clearLogs :: "monitor \<Rightarrow> monitor" where
  "clearLogs s =
     s\<lparr>consoleLogs := nextAddr s,
       consoleHeap := (consoleHeap s)(nextAddr s := []),
       networkLogs := nextAddr s + 1,
       networkHeap := (networkHeap s)(nextAddr s + 1 := []),
       nextAddr := nextAddr s + 2\<rparr>"

definition pushConsole :: "BrowserLog \<Rightarrow> monitor \<Rightarrow> monitor" where
  "pushConsole l s =
     s\<lparr>consoleHeap := (consoleHeap s)(consoleLogs s := consoleHeap s (consoleLogs s) @ [l])\<rparr>"

definition pushNetwork :: "NetworkRequest \<Rightarrow> monitor \<Rightarrow> monitor" where
  "pushNetwork r s =
     s\<lparr>networkHeap := (networkHeap s)(networkLogs s := networkHeap s (networkLogs s) @ [r])\<rparr>"

text \<open>
  The four listeners registered by \<open>setupEventListeners\<close>, run on one event arriving at
  time \<open>now\<close>. A console event whose arguments cannot be rendered throws before the push.
\<close>

fun handleEvent :: "nat \<Rightarrow> protocol_event \<Rightarrow> monitor \<Rightarrow> monitor" where
  "handleEvent now (ConsoleAPICalled t args) s =
     (case those_opt (map formatArg args) of
        None \<Rightarrow> s
      | Some formattedArgs \<Rightarrow>
          (let l = \<lparr>log_type = consoleLogType t,
                     log_text = join '' '' (map join_elem formattedArgs),
                     log_timestamp = now\<rparr>
           in emit (FireNewLog l) (pushConsole l s)))"
| "handleEvent now (LogEntryAdded level text) s =
     (let l = \<lparr>log_type = entryLogType level, log_text = text, log_timestamp = now\<rparr>
      in emit (FireNewLog l) (pushConsole l s))"
| "handleEvent now (ResponseReceived u st) s =
     (let r = \<lparr>req_url = u, req_status = st, req_error = None, req_timestamp = now\<rparr>
      in emit (EmitNetwork r) (pushNetwork r s))"
| "handleEvent now (LoadingFailed errorText) s =
     (let r = \<lparr>req_url = ''Failed request'', req_status = 0, req_error = Some errorText,
                req_timestamp = now\<rparr>
      in emit (EmitNetwork r) (pushNetwork r s))"

text \<open>A stream of events, each with its arrival time, handled in arrival order.\<close>

fun handleEvents :: "(nat \<times> protocol_event) list \<Rightarrow> monitor \<Rightarrow> monitor" where
  "handleEvents [] s = s"
| "handleEvents ((now, e) # es) s = handleEvents es (handleEvent now e s)"

text \<open>
  The record a console event is normalised to when it arrives at time \<open>now\<close>
  (\<open>Date.now()\<close>), if its arguments can be rendered; network events yield no console
  record. It is the reference the buffers are compared with.
\<close>

fun consoleRecord :: "nat \<Rightarrow> protocol_event \<Rightarrow> BrowserLog option" where
  "consoleRecord now (ConsoleAPICalled t args) =
     (case those_opt (map formatArg args) of
        None \<Rightarrow> None
      | Some formattedArgs \<Rightarrow>
          Some \<lparr>log_type = consoleLogType t,
                log_text = join '' '' (map join_elem formattedArgs),
                log_timestamp = now\<rparr>)"
| "consoleRecord now (LogEntryAdded level text) =
     Some \<lparr>log_type = entryLogType level, log_text = text, log_timestamp = now\<rparr>"
| "consoleRecord now (ResponseReceived u st) = None"
| "consoleRecord now (LoadingFailed errorText) = None"

subsection \<open>Connecting and disconnecting\<close>

text \<open>
  The transport and the page picker are collaborators. A stub fixes what they answer:
  whether the endpoint can be reached, the pages it lists (\<open>None\<close>: the listing rejects),
  for each page whether its title and URL can be read, whether a session can be created
  on it, which of the four domains can be enabled and whether \<open>page.evaluate\<close> resolves,
  which entry the user picks, and whether \<open>detach\<close> and \<open>browser.disconnect\<close> resolve.
\<close>

datatype domain = PageDomain | NetworkDomain | RuntimeDomain | LogDomain

record page_stub =
  stub_page :: nat
  stub_title :: "string option"
  stub_url :: "string option"
  stub_session :: bool
  stub_enable :: "domain \<Rightarrow> bool"
  stub_evaluate :: bool

record world =
  connect_ok :: bool
  pages_result :: "page_stub list option"
  pick :: "nat option"
  detach_ok :: "nat \<Rightarrow> bool"
  browser_disconnect_ok :: bool

definition clearHealthCheck :: "monitor \<Rightarrow> monitor" where
  "clearHealthCheck s =
     (case healthCheckInterval s of
        None \<Rightarrow> s
      | Some t \<Rightarrow> (emit (ClearInterval t) s)\<lparr>healthCheckInterval := None\<rparr>)"

definition detach :: "world \<Rightarrow> nat \<Rightarrow> monitor \<Rightarrow> (connect_error + unit) \<times> monitor" where
  "detach w c s = (if detach_ok w c then Inr () else Inl DetachFailed, emit (Detach c) s)"

text \<open>\<open>stopMonitoring\<close>: the \<open>catch {}\<close> swallows a failing \<open>detach\<close>.\<close>

definition stopMonitoring :: "world \<Rightarrow> monitor \<Rightarrow> (connect_error + unit) \<times> monitor" where
  "stopMonitoring w s =
     (case activePage s of
        None \<Rightarrow> (Inr (), s)
      | Some ap \<Rightarrow>
          (case detach w (ap_client ap) s of
             (Inl e, s1) \<Rightarrow> (Inr (), s1\<lparr>activePage := None\<rparr>)
           | (Inr u, s1) \<Rightarrow> (Inr (), s1\<lparr>activePage := None\<rparr>)))"

definition browserDisconnect :: "world \<Rightarrow> monitor \<Rightarrow> (connect_error + unit) \<times> monitor" where
  "browserDisconnect w s =
     (if browser_disconnect_ok w then Inr () else Inl BrowserDisconnectFailed,
      emit BrowserDisconnect s)"

text \<open>
  \<open>disconnect\<close>, run from its call to its end with nothing handled in between;
  \<open>.catch(() => {})\<close> swallows a failing \<open>browser.disconnect()\<close>. The points where the
  source suspends are modelled further down.
\<close>

definition disconnect :: "world \<Rightarrow> monitor \<Rightarrow> (connect_error + unit) \<times> monitor" where
  "disconnect w s =
     (let s1 = clearHealthCheck s in
      case stopMonitoring w s1 of
        (Inl e, s2) \<Rightarrow> (Inl e, s2)
      | (Inr u, s2) \<Rightarrow>
          (let s3 = (if browser s2
                     then (case browserDisconnect w s2 of
                             (Inl e, s') \<Rightarrow> s'\<lparr>browser := False\<rparr>
                           | (Inr u', s') \<Rightarrow> s'\<lparr>browser := False\<rparr>)
                     else s2);
               s4 = updateConnectionState s3
           in (Inr (), emit FireDisconnect s4)))"

definition handleSessionError :: "world \<Rightarrow> monitor \<Rightarrow> (connect_error + unit) \<times> monitor" where
  "handleSessionError w s =
     (if isConnected s then disconnect w (emit (Toast SessionDisconnected) s) else (Inr (), s))"

definition handlePageClosed :: "world \<Rightarrow> monitor \<Rightarrow> (connect_error + unit) \<times> monitor" where
  "handlePageClosed w s =
     (if isConnected s then disconnect w (emit (Toast TabClosed) s) else (Inr (), s))"

text \<open>
  One tick of the health-check timer while it is running; \<open>alive\<close> is whether the
  \<open>Runtime.evaluate\<close> round trip resolves. A cleared timer does not tick.
\<close>

definition healthCheck :: "world \<Rightarrow> bool \<Rightarrow> monitor \<Rightarrow> (connect_error + unit) \<times> monitor" where
  "healthCheck w alive s =
     (case healthCheckInterval s of
        None \<Rightarrow> (Inr (), s)
      | Some c \<Rightarrow> if alive then (Inr (), s) else handleSessionError w (clearHealthCheck s))"

text \<open>
  \<open>disconnect\<close> is an \<open>async\<close> method: it gives up control while \<open>client.detach()\<close> and
  \<open>browser.disconnect()\<close> are pending, and other listeners can run then. \<open>activePage\<close> is
  cleared only after the first of these has settled, \<open>browser\<close> after the second, and
  \<open>_isConnected\<close> at the very end. \<open>disconnectStart\<close> runs a call up to its first
  suspension and \<open>resume\<close> continues a suspended call up to the next one or to its end
  (\<open>None\<close>). Whether the pending call resolved or rejected makes no difference, both
  being swallowed. An \<open>await\<close> on a call that has nothing to wait for is not a point
  where a protocol or page event can be handled.
\<close>

datatype suspended = AwaitingDetach | AwaitingBrowserDisconnect

definition finishDisconnect :: "monitor \<Rightarrow> monitor" where
  "finishDisconnect s = emit FireDisconnect (updateConnectionState s)"

definition afterStopMonitoring :: "monitor \<Rightarrow> suspended option \<times> monitor" where
  "afterStopMonitoring s =
     (if browser s then (Some AwaitingBrowserDisconnect, emit BrowserDisconnect s)
      else (None, finishDisconnect s))"

definition disconnectStart :: "monitor \<Rightarrow> suspended option \<times> monitor" where
  "disconnectStart s =
     (let s1 = clearHealthCheck s in
      case activePage s1 of
        None \<Rightarrow> afterStopMonitoring s1
      | Some ap \<Rightarrow> (Some AwaitingDetach, emit (Detach (ap_client ap)) s1))"

fun resume :: "suspended \<Rightarrow> monitor \<Rightarrow> suspended option \<times> monitor" where
  "resume AwaitingDetach s = afterStopMonitoring (s\<lparr>activePage := None\<rparr>)"
| "resume AwaitingBrowserDisconnect s = (None, finishDisconnect (s\<lparr>browser := False\<rparr>))"

text \<open>The listeners that end in \<open>disconnect\<close>, run up to the first suspension.\<close>

definition handleSessionErrorStart :: "monitor \<Rightarrow> suspended option \<times> monitor" where
  "handleSessionErrorStart s =
     (if isConnected s then disconnectStart (emit (Toast SessionDisconnected) s) else (None, s))"

definition handlePageClosedStart :: "monitor \<Rightarrow> suspended option \<times> monitor" where
  "handlePageClosedStart s =
     (if isConnected s then disconnectStart (emit (Toast TabClosed) s) else (None, s))"

definition healthCheckStart :: "bool \<Rightarrow> monitor \<Rightarrow> suspended option \<times> monitor" where
  "healthCheckStart alive s =
     (case healthCheckInterval s of
        None \<Rightarrow> (None, s)
      | Some c \<Rightarrow> if alive then (None, s) else handleSessionErrorStart (clearHealthCheck s))"

text \<open>The health-check part of \<open>setupEventListeners\<close>.\<close>

definition setupEventListeners :: "nat \<Rightarrow> monitor \<Rightarrow> monitor" where
  "setupEventListeners client s = (emit (SetInterval client) s)\<lparr>healthCheckInterval := Some client\<rparr>"

definition allDomains :: "domain list" where
  "allDomains = [PageDomain, NetworkDomain, RuntimeDomain, LogDomain]"

text \<open>
  \<open>monitorPage\<close>. When enabling the domains fails it reports, disconnects and returns
  normally; a failing \<open>createCDPSession\<close> or \<open>page.evaluate\<close> propagates to the caller.
\<close>

definition monitorPage ::
  "world \<Rightarrow> page_stub \<Rightarrow> MonitoredPage \<Rightarrow> monitor \<Rightarrow> (connect_error + unit) \<times> monitor" where
  "monitorPage w p pageInfo s =
     (let s1 = (if activePage s \<noteq> None then snd (stopMonitoring w s) else s) in
      if \<not> stub_session p then (Inl SessionCreateFailed, s1)
      else
        (let client = nextClient s1;
             s2 = emit (OpenSession client) (s1\<lparr>nextClient := client + 1\<rparr>) in
         if \<not> list_all (stub_enable p) allDomains
         then (Inr (), snd (disconnect w (emit (Toast SessionInitFailed) s2)))
         else
           (let s3 = updateConnectionState
                       (s2\<lparr>activePage := Some \<lparr>ap_page = stub_page p, ap_client = client,
                                                ap_info = pageInfo\<rparr>\<rparr>) in
            if \<not> stub_evaluate p then (Inl EvaluateFailed, s3)
            else (Inr (), emit (Toast ConnectedToTab)
                            (updateStatusBar (setupEventListeners client s3))))))"

text \<open>Title and URL of a candidate page, read inside one \<open>try\<close> with empty-string fallback.\<close>

definition pageInfoOf :: "page_stub \<Rightarrow> MonitoredPage" where
  "pageInfoOf p =
     (case stub_title p of
        None \<Rightarrow> \<lparr>page_title = [], page_url = [], page_id = []\<rparr>
      | Some t \<Rightarrow>
          (case stub_url p of
             None \<Rightarrow> \<lparr>page_title = t, page_url = [], page_id = []\<rparr>
           | Some u \<Rightarrow> \<lparr>page_title = t, page_url = u, page_id = u\<rparr>))"

text \<open>The \<open>try\<close> block of \<open>connect\<close>.\<close>

definition connectBody :: "world \<Rightarrow> monitor \<Rightarrow> (connect_error + unit) \<times> monitor" where
  "connectBody w s =
     (if \<not> connect_ok w then (Inl EndpointUnreachable, s)
      else
        (let s1 = (emit PuppeteerConnect s)\<lparr>browser := True\<rparr> in
         case pages_result w of
           None \<Rightarrow> (Inl PagesUnavailable, s1)
         | Some pages \<Rightarrow>
             if pages = [] then (Inl NoPagesAvailable, s1)
             else
               (case pick w of
                  None \<Rightarrow> (Inr (), s1)
                | Some i \<Rightarrow>
                    if i < length pages
                    then monitorPage w (pages ! i) (pageInfoOf (pages ! i)) s1
                    else (Inr (), s1))))"

text \<open>
  \<open>connect\<close>: the \<open>catch\<close> block reports the error and calls \<open>disconnect\<close>. The call is
  not awaited in the source; here it runs to completion before \<open>connect\<close> returns, so
  the result is the state once the pending calls have settled.
\<close>

definition connect :: "world \<Rightarrow> monitor \<Rightarrow> monitor" where
  "connect w s =
     (case connectBody w s of
        (Inr u, s1) \<Rightarrow> s1
      | (Inl e, s1) \<Rightarrow> snd (disconnect w (emit (Toast (ConnectFailed e)) s1)))"

text \<open>Protocol channels opened and closed so far, by client.\<close>

fun opened :: "effect list \<Rightarrow> nat list" where
  "opened [] = []"
| "opened (OpenSession c # es) = c # opened es"
| "opened (e # es) = opened es"

fun closed :: "effect list \<Rightarrow> nat list" where
  "closed [] = []"
| "closed (Detach c # es) = c # closed es"
| "closed (e # es) = closed es"

subsection \<open>Stub transports and inputs for concrete runs\<close>

abbreviation fired :: "effect \<Rightarrow> monitor \<Rightarrow> nat" where
  "fired e s \<equiv> count_list (effects s) e"

text \<open>The buffer references point to arrays that have been allocated.\<close>

definition allocated :: "monitor \<Rightarrow> bool" where
  "allocated s = (consoleLogs s < nextAddr s \<and> networkLogs s < nextAddr s)"

text \<open>A browser with one tab; how far session initialisation gets on it.\<close>

definition tab :: page_stub where
  "tab = \<lparr>stub_page = 7, stub_title = Some ''Home'', stub_url = Some ''http://localhost:3000/'',
          stub_session = True, stub_enable = (\<lambda>d. d \<noteq> RuntimeDomain), stub_evaluate = True\<rparr>"

definition enable_fails :: world where
  "enable_fails = \<lparr>connect_ok = True, pages_result = Some [tab], pick = Some 0,
                   detach_ok = (\<lambda>c. True), browser_disconnect_ok = True\<rparr>"

definition evaluate_fails :: world where
  "evaluate_fails = \<lparr>connect_ok = True,
      pages_result = Some [tab\<lparr>stub_enable := (\<lambda>d. True), stub_evaluate := False\<rparr>],
      pick = Some 0, detach_ok = (\<lambda>c. True), browser_disconnect_ok = True\<rparr>"

definition healthy :: world where
  "healthy = \<lparr>connect_ok = True,
      pages_result = Some [tab\<lparr>stub_enable := (\<lambda>d. True)\<rparr>],
      pick = Some 0, detach_ok = (\<lambda>c. True), browser_disconnect_ok = True\<rparr>"

text \<open>
  A health check that fails on a connected monitor, and a page-close event that arrives
  while the \<open>detach\<close> of the tear-down is pending. Then the pending calls settle in the
  order they were made.
\<close>

definition connected :: monitor where
  "connected = connect healthy new_monitor"

definition teardown_begun :: monitor where
  "teardown_begun = snd (healthCheckStart False connected)"

definition crash_arrived :: monitor where
  "crash_arrived = snd (handlePageClosedStart teardown_begun)"

definition first_detached :: monitor where
  "first_detached = snd (resume AwaitingDetach crash_arrived)"

definition second_detached :: monitor where
  "second_detached = snd (resume AwaitingDetach first_detached)"

definition first_finished :: monitor where
  "first_finished = snd (resume AwaitingBrowserDisconnect second_detached)"

definition second_finished :: monitor where
  "second_finished = snd (resume AwaitingBrowserDisconnect first_finished)"

definition console_events :: "(nat \<times> protocol_event) list" where
  "console_events =
     [(10, LogEntryAdded ''warning'' ''deprecated''),
      (11, ResponseReceived ''http://localhost:3000/app.js'' 200),
      (12, ConsoleAPICalled ''log''
             [\<lparr>obj_type = ''object'', obj_subtype = Some ''array'', obj_value = JUndefined,
               obj_description = Some ''Array(1)'',
               obj_preview = Some \<lparr>preview_subtype = Some ''array'', preview_description = None,
                                    preview_properties = None\<rparr>\<rparr>]),
      (13, ConsoleAPICalled ''error''
             [\<lparr>obj_type = ''string'', obj_subtype = None, obj_value = JStr ''boom'',
               obj_description = None, obj_preview = None\<rparr>])]"

section \<open>Properties of the delivery pipeline\<close>

subsection \<open>Calls made by each step\<close>

lemma invoke_eq:
  "invoke env c s = (ok, s') \<Longrightarrow>
     ok = env c (ncalls c s) \<and> calls s' = calls s @ [c] \<and> composerOpened s' = composerOpened s"
  by (auto simp: invoke_def)

lemma openComposer_calls:
  "ncalls OpenCommand (openComposer env s) = ncalls OpenCommand s + (if composerOpened s then 0 else 1)"
  "ncalls StageFile (openComposer env s) = ncalls StageFile s"
  "ncalls CopyText (openComposer env s) = ncalls CopyText s"
  "ncalls VerifyImage (openComposer env s) = ncalls VerifyImage s"
  "ncalls VerifyText (openComposer env s) = ncalls VerifyText s"
  by (auto simp: openComposer_def invoke_def split: prod.splits)

lemma sendImage_calls:
  "sendImageToComposer env s = (ok, s') \<Longrightarrow>
     ncalls StageFile s' = ncalls StageFile s + 1 \<and> ncalls OpenCommand s' = ncalls OpenCommand s
     \<and> ncalls CopyText s' = ncalls CopyText s \<and> ncalls VerifyImage s' = ncalls VerifyImage s
     \<and> ncalls VerifyText s' = ncalls VerifyText s \<and> composerOpened s' = composerOpened s"
  by (auto simp: sendImageToComposer_def invoke_def Let_def split: prod.splits if_splits)

lemma prepareText_calls:
  "prepareTextForComposer env text s = (ok, s') \<Longrightarrow>
     ncalls CopyText s' = ncalls CopyText s + (if text = [] then 0 else 1)
     \<and> ncalls OpenCommand s' = ncalls OpenCommand s
     \<and> ncalls StageFile s' = ncalls StageFile s \<and> ncalls VerifyImage s' = ncalls VerifyImage s
     \<and> ncalls VerifyText s' = ncalls VerifyText s \<and> composerOpened s' = composerOpened s"
  by (auto simp: prepareTextForComposer_def invoke_def Let_def split: prod.splits if_splits)

lemma imageBlock_calls:
  assumes "imageBlock env a s = (b, s')"
  shows "ncalls StageFile s' \<le> ncalls StageFile s + 1
     \<and> (b \<noteq> Raise ClipboardFailure \<longrightarrow> ncalls StageFile s' = ncalls StageFile s + 1)
     \<and> ncalls VerifyImage s' \<le> ncalls VerifyImage s + 1
     \<and> ncalls OpenCommand s' = ncalls OpenCommand s
     \<and> ncalls CopyText s' = ncalls CopyText s
     \<and> ncalls VerifyText s' = ncalls VerifyText s \<and> composerOpened s' = composerOpened s"
  using assms
  by (auto simp: imageBlock_def invoke_def Let_def split: prod.splits if_splits
      dest!: sendImage_calls)

lemma imageBlock_outcome:
  assumes "imageBlock env a s = (b, s')"
  shows "b \<noteq> Raise LogsFailure \<and> (b = Retry \<longrightarrow> a \<noteq> maxRetries)
     \<and> (b = Raise ImageFailure \<longrightarrow> a = maxRetries)"
  using assms
  by (auto simp: imageBlock_def Let_def split: prod.splits if_splits)

lemma textBlock_calls:
  assumes "textBlock env text a s = (b, s')"
  shows "ncalls CopyText s' \<le> ncalls CopyText s + 1
     \<and> (b \<noteq> Raise ClipboardFailure \<and> text \<noteq> [] \<longrightarrow> ncalls CopyText s' = ncalls CopyText s + 1)
     \<and> ncalls VerifyText s' \<le> ncalls VerifyText s + 1
     \<and> ncalls OpenCommand s' = ncalls OpenCommand s
     \<and> ncalls StageFile s' = ncalls StageFile s
     \<and> ncalls VerifyImage s' = ncalls VerifyImage s \<and> composerOpened s' = composerOpened s"
  using assms
  by (auto simp: textBlock_def invoke_def Let_def split: prod.splits if_splits
      dest!: prepareText_calls)

lemma textBlock_outcome:
  assumes "textBlock env text a s = (b, s')"
  shows "b \<noteq> Raise ImageFailure \<and> (b = Retry \<longrightarrow> a \<noteq> maxRetries)
     \<and> (b = Raise LogsFailure \<longrightarrow> a = maxRetries)"
  using assms
  by (auto simp: textBlock_def Let_def split: prod.splits if_splits)


lemma iteration_invariant:
  assumes "iteration env sc fl v s = (Next v', s')"
  shows "imageAttempt v' = imageAttempt v + (if sc \<and> \<not> imageSuccess v' then 1 else 0)"
    and "textAttempt v' = textAttempt v + (if fl \<noteq> [] \<and> \<not> textSuccess v' then 1 else 0)"
    and "sc \<and> \<not> imageSuccess v' \<longrightarrow> imageAttempt v \<noteq> maxRetries \<and> \<not> imageSuccess v"
    and "fl \<noteq> [] \<and> \<not> textSuccess v' \<longrightarrow> textAttempt v \<noteq> maxRetries \<and> \<not> textSuccess v"
    and "imageSuccess v \<longrightarrow> imageSuccess v'"
    and "textSuccess v \<longrightarrow> textSuccess v'"
  using assms
  by (auto simp: iteration_def tryBody_def Let_def
      split: prod.splits block.splits if_splits
      dest!: imageBlock_outcome textBlock_outcome)

lemma iteration_counts:
  assumes "iteration env sc fl v s = (r, s')"
  shows "ncalls StageFile s' \<le> ncalls StageFile s + (if sc \<and> \<not> imageSuccess v then 1 else 0)"
    and "ncalls CopyText s' \<le> ncalls CopyText s + (if fl \<noteq> [] \<and> \<not> textSuccess v then 1 else 0)"
    and "ncalls OpenCommand s' = ncalls OpenCommand s + (if composerOpened s then 0 else 1)"
    and "\<not> composerOpened s'"
  using assms
  by (auto simp: iteration_def tryBody_def Let_def openComposer_calls invoke_def
      split: prod.splits block.splits if_splits
      dest!: imageBlock_calls textBlock_calls)

subsection \<open>The retry loop\<close>

lemma sendLoop_unfold:
  "sendLoop env sc fl v s =
     (if loopCond sc fl v
      then (case fst (iteration env sc fl v s) of
              Return \<Rightarrow> (Inr (), snd (iteration env sc fl v s))
            | Throw e \<Rightarrow> (Inl e, snd (iteration env sc fl v s))
            | Next v' \<Rightarrow> sendLoop env sc fl v' (snd (iteration env sc fl v s)))
      else (Inr (), s))"
  by (subst sendLoop.simps) (simp split: prod.splits outcome.splits)























lemma rounds_decrease:
  assumes "loopCond sc fl v" and "iteration env sc fl v s = (Next v', s1)"
  shows "max (if sc \<and> \<not> imageSuccess v' then 3 - imageAttempt v' else 0)
             (if fl \<noteq> [] \<and> \<not> textSuccess v' then 3 - textAttempt v' else 0) + 1
       \<le> max (if sc \<and> \<not> imageSuccess v then 3 - imageAttempt v else 0)
             (if fl \<noteq> [] \<and> \<not> textSuccess v then 3 - textAttempt v else 0)"
  using assms(1) iteration_invariant [OF assms(2)]
  by (auto simp: loopCond_def maxRetries_def max_def split: if_splits)

lemma sendLoop_open_bound:
  "ncalls OpenCommand (snd (sendLoop env sc fl v s))
     \<le> ncalls OpenCommand s
       + max (if sc \<and> \<not> imageSuccess v then 3 - imageAttempt v else 0)
             (if fl \<noteq> [] \<and> \<not> textSuccess v then 3 - textAttempt v else 0)"
proof (induction env sc fl v s rule: sendLoop.induct)
  case (1 env sc fl v s)
  show ?case
  proof (cases "loopCond sc fl v")
    case False
    then show ?thesis by (simp add: sendLoop_unfold [of env sc fl v s])
  next
    case True
    obtain out s1 where it: "iteration env sc fl v s = (out, s1)" by force
    have one: "ncalls OpenCommand s1 \<le> ncalls OpenCommand s + 1"
      using iteration_counts(3) [OF it] by simp
    have pos: "1 \<le> max (if sc \<and> \<not> imageSuccess v then 3 - imageAttempt v else 0)
             (if fl \<noteq> [] \<and> \<not> textSuccess v then 3 - textAttempt v else 0)"
      using True by (auto simp: loopCond_def maxRetries_def max_def)
    show ?thesis
    proof (cases out)
      case Return
      then have "snd (sendLoop env sc fl v s) = s1"
        using True it by (simp add: sendLoop_unfold [of env sc fl v s])
      with one pos show ?thesis by simp
    next
      case (Throw e)
      then have "snd (sendLoop env sc fl v s) = s1"
        using True it by (simp add: sendLoop_unfold [of env sc fl v s])
      with one pos show ?thesis by simp
    next
      case (Next v')
      have unf: "sendLoop env sc fl v s = sendLoop env sc fl v' s1"
        using True it Next by (simp add: sendLoop_unfold [of env sc fl v s])
      note ih = "1.IH" [OF True it [symmetric] Next]
      note dec = rounds_decrease [OF True it [unfolded Next]]
      show ?thesis
        unfolding unf using ih dec one by linarith
    qed
  qed
qed

lemma sendLoop_released:
  "loopCond sc fl v \<Longrightarrow> \<not> composerOpened (snd (sendLoop env sc fl v s))"
proof (induction env sc fl v s rule: sendLoop.induct)
  case (1 env sc fl v s)
  obtain out s1 where it: "iteration env sc fl v s = (out, s1)" by force
  have rel: "\<not> composerOpened s1"
    using iteration_counts(4) [OF it] .
  show ?case
  proof (cases out)
    case Return
    then have "snd (sendLoop env sc fl v s) = s1"
      using "1.prems" it by (simp add: sendLoop_unfold [of env sc fl v s])
    with rel show ?thesis by simp
  next
    case (Throw e)
    then have "snd (sendLoop env sc fl v s) = s1"
      using "1.prems" it by (simp add: sendLoop_unfold [of env sc fl v s])
    with rel show ?thesis by simp
  next
    case (Next v')
    have unf: "sendLoop env sc fl v s = sendLoop env sc fl v' s1"
      using "1.prems" it Next by (simp add: sendLoop_unfold [of env sc fl v s])
    show ?thesis
    proof (cases "loopCond sc fl v'")
      case True
      then show ?thesis
        unfolding unf using "1.IH" [OF "1.prems" it [symmetric] Next] by simp
    next
      case False
      then have "sendLoop env sc fl v' s1 = (Inr (), s1)"
        by (simp add: sendLoop_unfold [of env sc fl v' s1])
      with rel show ?thesis unfolding unf by simp
    qed
  qed
qed

lemma sendLoop_raised:
  "fst (sendLoop env sc fl v s) = Inl e \<Longrightarrow> loopCond sc fl v"
  by (cases "loopCond sc fl v") (simp_all add: sendLoop_unfold [of env sc fl v s])

lemmas run_defs = sendToComposer_def sendLoop_unfold loopCond_def iteration_def tryBody_def
  imageBlock_def textBlock_def sendImageToComposer_def prepareTextForComposer_def
  openComposer_def invoke_def Let_def fresh_def no_logs_def formatLogs_def maxRetries_def

subsection \<open>Retry budget\<close>




subsection \<open>The destination-open step and its marker\<close>

text \<open>
  What holds of the marker for every call: \<open>openComposer\<close> is a no-op while the marker
  \<open>composerOpened\<close> is set, but the \<open>finally\<close> block releases it at the end of every loop
  iteration, whatever the outcome. So an iteration that starts with the marker released
  executes the open command exactly once, a call executes it at most 3 times, and when
  \<open>sendToComposer\<close> raises, the marker has been released before the error propagates.
\<close>

lemma marker_released_every_iteration:
  assumes run: "sendToComposer env screenshot logs s = (r, s')"
  shows "(composerOpened t \<longrightarrow> openComposer env t = t)
       \<and> ncalls OpenCommand (snd (iteration env sc fl v t)) =
           ncalls OpenCommand t + (if composerOpened t then 0 else 1)
       \<and> \<not> composerOpened (snd (iteration env sc fl v t))
       \<and> ncalls OpenCommand s' \<le> ncalls OpenCommand s + 3
       \<and> (isl r \<longrightarrow> \<not> composerOpened s')"
proof -
  define fl0 where "fl0 = (case logs of Some l \<Rightarrow> formatLogs l | None \<Rightarrow> [])"
  define v0 where
    "v0 = \<lparr>imageAttempt = 0, textAttempt = 0, imageSuccess = False, textSuccess = False\<rparr>"
  have loop: "sendLoop env (screenshot \<noteq> None) fl0 v0 s = (r, s')"
    using run by (simp add: sendToComposer_def fl0_def v0_def)
  have a: "composerOpened t \<longrightarrow> openComposer env t = t"
    by (simp add: openComposer_def)
  have b: "ncalls OpenCommand (snd (iteration env sc fl v t)) =
             ncalls OpenCommand t + (if composerOpened t then 0 else 1)"
    "\<not> composerOpened (snd (iteration env sc fl v t))"
    using iteration_counts(3,4) [OF prod.collapse [symmetric], of env sc fl v t] by simp_all
  have c: "ncalls OpenCommand s' \<le> ncalls OpenCommand s + 3"
    using sendLoop_open_bound [of env "screenshot \<noteq> None" fl0 v0 s] loop
    by (simp add: v0_def max_def split: if_splits)
  have d: "isl r \<longrightarrow> \<not> composerOpened s'"
  proof
    assume "isl r"
    then obtain e where "r = Inl e" by (cases r) simp_all
    then have "loopCond (screenshot \<noteq> None) fl0 v0"
      using sendLoop_raised [of env "screenshot \<noteq> None" fl0 v0 s e] loop by simp
    then show "\<not> composerOpened s'"
      using sendLoop_released [of "screenshot \<noteq> None" fl0 v0 env s] loop by simp
  qed
  from a b c d show ?thesis by blast
qed

text \<open>
  Claim C6 on a fresh instance. With one rejected verification followed by an accepted one
  the call succeeds in two iterations and has executed the open command twice; with every
  verification rejected it raises after three iterations and has executed it three times.
  The guard of \<open>openComposer\<close> never holds at the start of a retry iteration, because the
  \<open>finally\<close> inside the loop body has released the marker: the open step is not a no-op
  on later iterations of the same call. The marker is released when the call raises.
\<close>

theorem openComposer_repeated:
  "fst (sendToComposer second_time (Some png) None fresh) = Inr ()
   \<and> ncalls OpenCommand (snd (sendToComposer second_time (Some png) None fresh)) = 2
   \<and> fst (sendToComposer rejecting (Some png) None fresh) = Inl ImageFailure
   \<and> ncalls OpenCommand (snd (sendToComposer rejecting (Some png) None fresh)) = 3
   \<and> \<not> composerOpened (snd (sendToComposer rejecting (Some png) None fresh))"
  by (simp add: run_defs second_time_def rejecting_def)

section \<open>Properties of the browser session manager\<close>

subsection \<open>Log buffers\<close>

lemma handleEvent_frame:
  "consoleLogs (handleEvent now e s) = consoleLogs s"
  "networkLogs (handleEvent now e s) = networkLogs s"
  "nextAddr (handleEvent now e s) = nextAddr s"
  by (cases e; simp add: emit_def pushConsole_def pushNetwork_def Let_def split: option.splits)+

lemma handleEvent_console:
  "consoleHeap (handleEvent now e s) (consoleLogs s) =
     consoleHeap s (consoleLogs s) @ (case consoleRecord now e of None \<Rightarrow> [] | Some l \<Rightarrow> [l])"
  by (cases e) (simp_all add: emit_def pushConsole_def pushNetwork_def Let_def split: option.splits)

lemma handleEvents_frame:
  "consoleLogs (handleEvents es s) = consoleLogs s \<and> networkLogs (handleEvents es s) = networkLogs s"
  by (induction es arbitrary: s) (auto simp: handleEvent_frame)

lemma handleEvents_nextAddr: "nextAddr (handleEvents es s) = nextAddr s"
  by (induction es arbitrary: s) (auto simp: handleEvent_frame)

lemma handleEvents_console:
  "consoleHeap (handleEvents es s) (consoleLogs s) =
     consoleHeap s (consoleLogs s) @ List.map_filter (\<lambda>(now, e). consoleRecord now e) es"
proof (induction es arbitrary: s)
  case Nil
  show ?case by simp
next
  case (Cons x es)
  obtain now e where x: "x = (now, e)" by (cases x)
  have "consoleHeap (handleEvents es (handleEvent now e s)) (consoleLogs s) =
          consoleHeap (handleEvent now e s) (consoleLogs s)
          @ List.map_filter (\<lambda>(now, e). consoleRecord now e) es"
    using Cons.IH [of "handleEvent now e s"] by (simp add: handleEvent_frame)
  then show ?case
    by (simp add: x handleEvent_console split: option.splits)
qed

lemma length_map_filter:
  "length (List.map_filter f xs) = length (filter (\<lambda>x. f x \<noteq> None) xs)"
  by (induction xs) (simp_all split: option.splits)

text \<open>
  Claim C7. For every sequence of protocol events handled from any state, the console
  buffer read through \<open>getLogs\<close> afterwards is the buffer before, followed by the
  normalised records of the console events in arrival order; its length grows by the number
  of events that were normalised.
\<close>

theorem console_arrival_order:
  "console (readLogs (handleEvents es s) (getLogs (handleEvents es s))) =
     console (readLogs s (getLogs s)) @ List.map_filter (\<lambda>(now, e). consoleRecord now e) es
   \<and> length (console (readLogs (handleEvents es s) (getLogs (handleEvents es s)))) =
     length (console (readLogs s (getLogs s)))
     + length (filter (\<lambda>(now, e). consoleRecord now e \<noteq> None) es)"
proof -
  have "console (readLogs (handleEvents es s) (getLogs (handleEvents es s))) =
     console (readLogs s (getLogs s)) @ List.map_filter (\<lambda>(now, e). consoleRecord now e) es"
    by (simp add: readLogs_def getLogs_def handleEvents_frame handleEvents_console)
  moreover have "length (List.map_filter (\<lambda>(now, e). consoleRecord now e) es) =
      length (filter (\<lambda>(now, e). consoleRecord now e \<noteq> None) es)"
    by (simp add: length_map_filter case_prod_unfold)
  ultimately show ?thesis by simp
qed

text \<open>
  Claim C4. Handling a \<open>Network.loadingFailed\<close> event appends one record to the network
  buffer, with status 0, the URL \<open>"Failed request"\<close> and the event's \<open>errorText\<close> as error.
\<close>

theorem loadingFailed_record:
  "network (readLogs (handleEvent now (LoadingFailed reason) s)
              (getLogs (handleEvent now (LoadingFailed reason) s))) =
     network (readLogs s (getLogs s))
     @ [\<lparr>req_url = ''Failed request'', req_status = 0, req_error = Some reason,
          req_timestamp = now\<rparr>]"
  by (simp add: readLogs_def getLogs_def emit_def pushNetwork_def Let_def)

text \<open>
  Claim C9. After \<open>clearLogs\<close>, \<open>getLogs\<close> shows two empty buffers, whatever they held;
  the active page, the connection flag, the health-check timer, the browser connection and
  the notifications sent are unchanged.
\<close>

theorem clearLogs_empties:
  "readLogs (clearLogs s) (getLogs (clearLogs s)) = \<lparr>console = [], network = []\<rparr>
   \<and> activePage (clearLogs s) = activePage s
   \<and> isConnected (clearLogs s) = isConnected s
   \<and> healthCheckInterval (clearLogs s) = healthCheckInterval s
   \<and> browser (clearLogs s) = browser s
   \<and> effects (clearLogs s) = effects s"
  by (simp add: readLogs_def getLogs_def clearLogs_def)

lemma allocated_preserved:
  "allocated s \<Longrightarrow> allocated (handleEvents es s)"
  "allocated s \<Longrightarrow> allocated (clearLogs s)"
  by (simp_all add: allocated_def handleEvents_frame handleEvents_nextAddr clearLogs_def)

text \<open>
  Claim C2, as the code has it. \<open>getLogs\<close> only reads the monitor (it has no state
  result) and returns the two buffer arrays themselves. Records appended after the call
  show through the object returned earlier: it always reads the same as a new call of
  \<open>getLogs\<close> would, that is the earlier contents followed by the new records. A later
  \<open>clearLogs\<close> assigns new arrays and leaves the object returned earlier as it was.
\<close>

theorem getLogs_live_view:
  "readLogs (handleEvents es s) (getLogs s) =
     readLogs (handleEvents es s) (getLogs (handleEvents es s))
   \<and> console (readLogs (handleEvents es s) (getLogs s)) =
     console (readLogs s (getLogs s)) @ List.map_filter (\<lambda>(now, e). consoleRecord now e) es
   \<and> (allocated s \<longrightarrow> readLogs (clearLogs s) (getLogs s) = readLogs s (getLogs s))"
  by (simp add: readLogs_def getLogs_def handleEvents_frame handleEvents_console clearLogs_def
      allocated_def)

lemma new_monitor_allocated: "allocated new_monitor"
  by (simp add: allocated_def new_monitor_def updateConnectionState_def updateStatusBar_def
      emit_def Let_def)

text \<open>
  A \<open>LogData\<close> taken from a new monitor is empty; after one log-entry event the same
  object holds the new record.
\<close>

theorem getLogs_shares_arrays:
  "console (readLogs new_monitor (getLogs new_monitor)) = []
   \<and> console (readLogs (handleEvent 5 (LogEntryAdded ''info'' ''hello'') new_monitor)
                (getLogs new_monitor))
     = [\<lparr>log_type = Info, log_text = ''hello'', log_timestamp = 5\<rparr>]"
  by (simp add: readLogs_def getLogs_def new_monitor_def updateConnectionState_def
      updateStatusBar_def emit_def pushConsole_def entryLogType_def Let_def)

subsection \<open>Disconnecting\<close>

lemma closed_append: "closed (xs @ ys) = closed xs @ closed ys"
  by (induction xs rule: closed.induct) simp_all

lemma opened_append: "opened (xs @ ys) = opened xs @ opened ys"
  by (induction xs rule: opened.induct) simp_all

lemma clearHealthCheck_simps:
  "activePage (clearHealthCheck s) = activePage s"
  "browser (clearHealthCheck s) = browser s"
  "isConnected (clearHealthCheck s) = isConnected s"
  "healthCheckInterval (clearHealthCheck s) = None"
  "fired FireDisconnect (clearHealthCheck s) = fired FireDisconnect s"
  "fired FireConnectionState (clearHealthCheck s) = fired FireConnectionState s"
  "closed (effects (clearHealthCheck s)) = closed (effects s)"
  by (simp_all add: clearHealthCheck_def emit_def closed_append split: option.splits)

lemma stopMonitoring_ok: "fst (stopMonitoring w s) = Inr ()"
  by (simp add: stopMonitoring_def detach_def split: option.splits)

lemma stopMonitoring_simps:
  "activePage (snd (stopMonitoring w s)) = None"
  "browser (snd (stopMonitoring w s)) = browser s"
  "healthCheckInterval (snd (stopMonitoring w s)) = healthCheckInterval s"
  "fired FireDisconnect (snd (stopMonitoring w s)) = fired FireDisconnect s"
  "fired FireConnectionState (snd (stopMonitoring w s)) = fired FireConnectionState s"
  by (simp_all add: stopMonitoring_def detach_def emit_def split: option.splits)


lemma updateConnectionState_simps:
  "activePage (updateConnectionState s) = activePage s"
  "browser (updateConnectionState s) = browser s"
  "healthCheckInterval (updateConnectionState s) = healthCheckInterval s"
  "isConnected (updateConnectionState s) = (activePage s \<noteq> None)"
  "fired FireDisconnect (updateConnectionState s) = fired FireDisconnect s"
  "fired FireConnectionState (updateConnectionState s) = fired FireConnectionState s + 1"
  "closed (effects (updateConnectionState s)) = closed (effects s)"
  by (simp_all add: updateConnectionState_def updateStatusBar_def emit_def Let_def closed_append)

text \<open>\<open>disconnect\<close> as a composition of its steps.\<close>

lemma disconnect_unfold:
  "disconnect w s =
     (Inr (), emit FireDisconnect (updateConnectionState
        (let s2 = snd (stopMonitoring w (clearHealthCheck s)) in
         if browser s2 then (emit BrowserDisconnect s2)\<lparr>browser := False\<rparr> else s2)))"
  using stopMonitoring_ok [of w "clearHealthCheck s"]
  by (cases "stopMonitoring w (clearHealthCheck s)")
     (auto simp: disconnect_def browserDisconnect_def Let_def)

lemma disconnect_simps:
  "fst (disconnect w s) = Inr ()"
  "activePage (snd (disconnect w s)) = None"
  "browser (snd (disconnect w s)) = False"
  "isConnected (snd (disconnect w s)) = False"
  "healthCheckInterval (snd (disconnect w s)) = None"
  "fired FireDisconnect (snd (disconnect w s)) = fired FireDisconnect s + 1"
  "fired FireConnectionState (snd (disconnect w s)) = fired FireConnectionState s + 1"
  by (simp_all add: disconnect_unfold Let_def emit_def updateConnectionState_simps
        stopMonitoring_simps clearHealthCheck_simps)

text \<open>
  Claim C10. Every call of \<open>disconnect\<close>, from any state and whatever the transport
  answers, fires the connection-state notification exactly once and the disconnect
  notification exactly once.
\<close>

theorem disconnect_notifies_once:
  "fired FireConnectionState (snd (disconnect w s)) = fired FireConnectionState s + 1
   \<and> fired FireDisconnect (snd (disconnect w s)) = fired FireDisconnect s + 1"
  by (simp add: disconnect_simps)


text \<open>
  When a tick of the health check fails while the monitor is connected and the tear-down
  runs to its end before anything else is handled, the disconnect notification fires
  exactly once; a page-close or crash event handled after that, and any further tick,
  changes nothing.
\<close>

lemma settled_teardown_is_quiet:
  assumes "isConnected s" and "healthCheckInterval s \<noteq> None"
  shows "fired FireDisconnect (snd (healthCheck w False s)) = fired FireDisconnect s + 1
       \<and> \<not> isConnected (snd (healthCheck w False s))
       \<and> handlePageClosed w' (snd (healthCheck w False s)) = (Inr (), snd (healthCheck w False s))
       \<and> healthCheck w' alive (snd (healthCheck w False s)) = (Inr (), snd (healthCheck w False s))"
proof -
  obtain c where c: "healthCheckInterval s = Some c"
    using assms(2) by auto
  have hc: "healthCheck w False s = disconnect w (emit (Toast SessionDisconnected) (clearHealthCheck s))"
    using assms(1) c by (simp add: healthCheck_def handleSessionError_def clearHealthCheck_simps)
  have f: "fired FireDisconnect (emit (Toast SessionDisconnected) (clearHealthCheck s)) = fired FireDisconnect s"
    by (simp add: emit_def clearHealthCheck_simps)
  define s1 where "s1 = snd (healthCheck w False s)"
  have s1: "fired FireDisconnect s1 = fired FireDisconnect s + 1"
    "\<not> isConnected s1" "healthCheckInterval s1 = None"
    by (simp_all add: s1_def hc disconnect_simps f)
  have "handlePageClosed w' s1 = (Inr (), s1)"
    using s1(2) by (simp add: handlePageClosed_def)
  moreover have "healthCheck w' alive s1 = (Inr (), s1)"
    using s1(3) by (simp add: healthCheck_def)
  ultimately show ?thesis
    using s1(1,2) by (simp add: s1_def)
qed

subsection \<open>Failed connection attempts\<close>

lemmas monitor_defs = new_monitor_def updateConnectionState_def updateStatusBar_def emit_def Let_def

lemmas connect_defs = connect_def connectBody_def monitorPage_def pageInfoOf_def disconnect_def
  stopMonitoring_def detach_def browserDisconnect_def clearHealthCheck_def setupEventListeners_def
  allDomains_def tab_def

text \<open>
  Claim C3 at a transport where enabling a domain fails: \<open>connect\<close> ends disconnected and
  releases the browser connection, but the protocol session it created is never detached,
  since it is not yet the active page when \<open>disconnect\<close> runs. When instead
  \<open>page.evaluate\<close> fails, after the session was installed, the session is detached.
\<close>

theorem connect_enable_failure_leaves_session:
  "isConnected (connect enable_fails new_monitor) = False
   \<and> browser (connect enable_fails new_monitor) = False
   \<and> opened (effects (connect enable_fails new_monitor)) = [0]
   \<and> closed (effects (connect enable_fails new_monitor)) = []
   \<and> opened (effects (connect evaluate_fails new_monitor)) = [0]
   \<and> closed (effects (connect evaluate_fails new_monitor)) = [0]"
  by (simp add: connect_defs monitor_defs enable_fails_def evaluate_fails_def)

subsection \<open>A page event during the tear-down\<close>

lemma healthy_connected:
  "isConnected (connect healthy new_monitor)"
  "healthCheckInterval (connect healthy new_monitor) = Some 0"
  "fired FireDisconnect (connect healthy new_monitor) = 0"
  by (simp_all add: connect_defs monitor_defs healthy_def)

text \<open>
  Run without interruption, the steps of a tear-down give the state \<open>disconnect\<close> ends in.
\<close>

lemma disconnect_uninterrupted:
  "snd (disconnect w s) =
     (case disconnectStart s of
        (None, s1) \<Rightarrow> s1
      | (Some p, s1) \<Rightarrow>
          (case resume p s1 of
             (None, s2) \<Rightarrow> s2
           | (Some q, s2) \<Rightarrow> snd (resume q s2)))"
  by (simp add: disconnect_unfold disconnectStart_def afterStopMonitoring_def finishDisconnect_def
      stopMonitoring_def detach_def clearHealthCheck_def emit_def Let_def
      updateConnectionState_def updateStatusBar_def
      split: option.splits)

lemmas teardown_defs = connected_def teardown_begun_def crash_arrived_def first_detached_def
  second_detached_def first_finished_def second_finished_def healthCheckStart_def
  handleSessionErrorStart_def handlePageClosedStart_def disconnectStart_def
  afterStopMonitoring_def finishDisconnect_def

text \<open>
  Claim C5 on a connected monitor whose health check fails. The tear-down suspends on
  \<open>detach\<close> with the connection flag still set, so a page-close or crash event handled at
  that moment passes the guard of \<open>handlePageClosed\<close> and starts a second tear-down of
  the same session. Both run to their end and the disconnect notification fires twice.
\<close>

theorem crash_during_teardown_notifies_twice:
  "isConnected connected \<and> fired FireDisconnect connected = 0
   \<and> fst (healthCheckStart False connected) = Some AwaitingDetach
   \<and> isConnected teardown_begun
   \<and> fst (handlePageClosedStart teardown_begun) = Some AwaitingDetach
   \<and> fst (resume AwaitingDetach crash_arrived) = Some AwaitingBrowserDisconnect
   \<and> fst (resume AwaitingDetach first_detached) = Some AwaitingBrowserDisconnect
   \<and> fst (resume AwaitingBrowserDisconnect second_detached) = None
   \<and> fired FireDisconnect first_finished = 1
   \<and> fst (resume AwaitingBrowserDisconnect first_finished) = None
   \<and> fired FireDisconnect second_finished = 2
   \<and> \<not> isConnected second_finished"
  by (simp add: teardown_defs connect_defs monitor_defs healthy_def)

subsection \<open>The theorems at concrete inputs\<close>



text \<open>
  On a new monitor, whose constructor has fired the connection-state notification once.
\<close>

theorem disconnect_notifies_once_witness:
  "fired FireConnectionState (snd (disconnect healthy new_monitor)) = 2
   \<and> fired FireDisconnect (snd (disconnect healthy new_monitor)) = 1"
  using disconnect_notifies_once [of healthy new_monitor]
  by (simp add: monitor_defs)

lemma new_monitor_empty: "readLogs new_monitor (getLogs new_monitor) = \<lparr>console = [], network = []\<rparr>"
  by (simp add: readLogs_def getLogs_def monitor_defs)

lemma events_handled:
  "readLogs (handleEvents console_events new_monitor)
     (getLogs (handleEvents console_events new_monitor)) =
   \<lparr>console = [\<lparr>log_type = Warn, log_text = ''deprecated'', log_timestamp = 10\<rparr>,
               \<lparr>log_type = Error, log_text = ''boom'', log_timestamp = 13\<rparr>],
    network = [\<lparr>req_url = ''http://localhost:3000/app.js'', req_status = 200,
                req_error = None, req_timestamp = 11\<rparr>]\<rparr>"
  by (simp add: readLogs_def getLogs_def console_events_def formatArg_def entryLogType_def
      consoleLogType_def pushConsole_def pushNetwork_def monitor_defs)

lemma events_cleared:
  "readLogs (clearLogs (handleEvents console_events new_monitor))
     (getLogs (clearLogs (handleEvents console_events new_monitor))) =
   \<lparr>console = [], network = []\<rparr>"
  by (simp add: readLogs_def getLogs_def clearLogs_def)

text \<open>
  Four events on a new monitor. The object returned by \<open>getLogs\<close> before the events was
  empty then and holds the two console records afterwards. The object returned after the
  events still holds the three records once \<open>clearLogs\<close> has run, while a new call of
  \<open>getLogs\<close> shows two empty buffers.
\<close>

theorem getLogs_live_view_witness:
  "allocated (handleEvents console_events new_monitor)
   \<and> readLogs new_monitor (getLogs new_monitor) = \<lparr>console = [], network = []\<rparr>
   \<and> console (readLogs (handleEvents console_events new_monitor) (getLogs new_monitor)) =
       [\<lparr>log_type = Warn, log_text = ''deprecated'', log_timestamp = 10\<rparr>,
        \<lparr>log_type = Error, log_text = ''boom'', log_timestamp = 13\<rparr>]
   \<and> readLogs (clearLogs (handleEvents console_events new_monitor))
         (getLogs (handleEvents console_events new_monitor)) =
       \<lparr>console = [\<lparr>log_type = Warn, log_text = ''deprecated'', log_timestamp = 10\<rparr>,
                   \<lparr>log_type = Error, log_text = ''boom'', log_timestamp = 13\<rparr>],
        network = [\<lparr>req_url = ''http://localhost:3000/app.js'', req_status = 200,
                    req_error = None, req_timestamp = 11\<rparr>]\<rparr>
   \<and> readLogs (clearLogs (handleEvents console_events new_monitor))
         (getLogs (clearLogs (handleEvents console_events new_monitor))) =
       \<lparr>console = [], network = []\<rparr>"
  using getLogs_live_view [of console_events new_monitor]
    getLogs_live_view [of "[]" "handleEvents console_events new_monitor"]
    allocated_preserved(1) [OF new_monitor_allocated, of console_events]
    events_handled events_cleared new_monitor_empty
  by simp

text \<open>
  Four events on a new monitor: a log entry, a response, a console call whose array
  preview has no properties (it cannot be rendered) and a console call with a string.
\<close>

theorem console_arrival_order_witness:
  "console (readLogs (handleEvents console_events new_monitor)
              (getLogs (handleEvents console_events new_monitor))) =
     [\<lparr>log_type = Warn, log_text = ''deprecated'', log_timestamp = 10\<rparr>,
      \<lparr>log_type = Error, log_text = ''boom'', log_timestamp = 13\<rparr>]"
  using console_arrival_order [of console_events new_monitor]
  by (simp add: new_monitor_empty console_events_def formatArg_def entryLogType_def
      consoleLogType_def)

text \<open>A refused connection on a new monitor.\<close>

theorem loadingFailed_record_witness:
  "network (readLogs (handleEvent 20 (LoadingFailed ''net::ERR_CONNECTION_REFUSED'') new_monitor)
              (getLogs (handleEvent 20 (LoadingFailed ''net::ERR_CONNECTION_REFUSED'') new_monitor))) =
     [\<lparr>req_url = ''Failed request'', req_status = 0,
       req_error = Some ''net::ERR_CONNECTION_REFUSED'', req_timestamp = 20\<rparr>]"
  using loadingFailed_record [of 20 "''net::ERR_CONNECTION_REFUSED''" new_monitor]
  by (simp add: new_monitor_empty)

text \<open>Clearing after the four events.\<close>

theorem clearLogs_empties_witness:
  "readLogs (clearLogs (handleEvents console_events new_monitor))
     (getLogs (clearLogs (handleEvents console_events new_monitor))) = \<lparr>console = [], network = []\<rparr>"
  using clearLogs_empties [of "handleEvents console_events new_monitor"]
  by simp

end
